theory Spec2Isabelle
  imports Main
begin

section \<open>Data Quality Review Hub: the change-reconciliation core\<close>

text \<open>
  A shallow embedding of \<^verbatim>\<open>models/shop_orders.py\<close>, \<^verbatim>\<open>init_state.py\<close> and the
  Save Changes handler of \<^verbatim>\<open>app.py\<close>. Python strings are \<open>string\<close> (ASCII text),
  Python integers are \<open>int\<close>, a null cell (None, NaN, NaT, pd.NA) is \<open>Null\<close>.
  Floating-point cells are outside the embedding.
\<close>

subsection \<open>Python string operations\<close>

text \<open>\<^verbatim>\<open>str.upper()\<close> and \<^verbatim>\<open>str.lower()\<close> on ASCII text.\<close>

definition upper_char :: "char \<Rightarrow> char" where
  "upper_char c =
     (case map_of (zip ''abcdefghijklmnopqrstuvwxyz'' ''ABCDEFGHIJKLMNOPQRSTUVWXYZ'') c of
        Some u \<Rightarrow> u
      | None \<Rightarrow> c)"

definition lower_char :: "char \<Rightarrow> char" where
  "lower_char c =
     (case map_of (zip ''ABCDEFGHIJKLMNOPQRSTUVWXYZ'' ''abcdefghijklmnopqrstuvwxyz'') c of
        Some l \<Rightarrow> l
      | None \<Rightarrow> c)"

definition upper :: "string \<Rightarrow> string" where
  "upper s = map upper_char s"

definition lower :: "string \<Rightarrow> string" where
  "lower s = map lower_char s"

text \<open>\<^verbatim>\<open>s.replace(a, b)\<close> for one-character \<open>a\<close>.\<close>

definition replace_char :: "char \<Rightarrow> string \<Rightarrow> string \<Rightarrow> string" where
  "replace_char a b s = concat (map (\<lambda>c. if c = a then b else [c]) s)"

text \<open>\<^verbatim>\<open>sep.join(parts)\<close>.\<close>

fun join :: "string \<Rightarrow> string list \<Rightarrow> string" where
  "join sep [] = []"
| "join sep [p] = p"
| "join sep (p # q # ps) = p @ sep @ join sep (q # ps)"

text \<open>\<^verbatim>\<open>sub in s\<close> for strings.\<close>

fun contains :: "string \<Rightarrow> string \<Rightarrow> bool" where
  "contains sub [] = (sub = [])"
| "contains sub (c # cs) = (take (length sub) (c # cs) = sub \<or> contains sub cs)"

text \<open>
  \<^verbatim>\<open>str.strip()\<close>: the ASCII characters Python counts as white space are
  TAB, LF, VT, FF, CR, FS, GS, RS, US and the blank.
\<close>

definition is_space :: "char \<Rightarrow> bool" where
  "is_space c =
     (c \<in> set [CHR 0x09, CHR 0x0A, CHR 0x0B, CHR 0x0C, CHR 0x0D,
                CHR 0x1C, CHR 0x1D, CHR 0x1E, CHR 0x1F, CHR '' ''])"

definition strip :: "string \<Rightarrow> string" where
  "strip s = rev (dropWhile is_space (rev (dropWhile is_space s)))"

definition is_digit :: "char \<Rightarrow> bool" where
  "is_digit c = (c \<in> set ''0123456789'')"

definition digit_val :: "char \<Rightarrow> nat" where
  "digit_val c = length (takeWhile (\<lambda>d. d \<noteq> c) ''0123456789'')"

definition digit_char :: "nat \<Rightarrow> char" where
  "digit_char d = ''0123456789'' ! d"

text \<open>\<^verbatim>\<open>str(n)\<close> for an integer.\<close>

fun str_nat :: "nat \<Rightarrow> string" where
  "str_nat n = (if n < 10 then [digit_char n] else str_nat (n div 10) @ [digit_char (n mod 10)])"

definition str_int :: "int \<Rightarrow> string" where
  "str_int i = (if i < 0 then CHR ''-'' # str_nat (nat (- i)) else str_nat (nat i))"

text \<open>\<^verbatim>\<open>int(ds)\<close> for a string of ASCII digits.\<close>

definition nat_of_digits :: "string \<Rightarrow> nat" where
  "nat_of_digits ds = foldl (\<lambda>acc c. 10 * acc + digit_val c) 0 ds"

declare str_nat.simps [simp del]

subsection \<open>Cells, columns and frames\<close>

text \<open>
  A \<^verbatim>\<open>datetime.date\<close> and a \<^verbatim>\<open>pd.Timestamp\<close> (to the second, with a fixed UTC
  offset in minutes, \<open>None\<close> when naive) hold their civil fields.
\<close>

datatype date = Date (year: nat) (month: nat) (day: nat)

datatype timestamp =
  Timestamp (date_of: date) (hour: nat) (minute: nat) (second: nat) (utcoffset: "int option")

datatype cell = CNull | CStr string | CInt int | CBool bool | CDate date | CTimestamp timestamp

datatype dtype = Int64 | Float64 | Boolean | String | Object | Datetime64

text \<open>
  A \<^verbatim>\<open>pd.Series\<close> with its label, and a \<^verbatim>\<open>pd.DataFrame\<close> as its columns in
  order. The labels of a frame are taken to be unique (they are the column names of
  one table), so \<^verbatim>\<open>df[col]\<close> is the column labelled \<open>col\<close>.
\<close>

datatype column = Column (label: string) (dtype: dtype) (cells: "cell list")

type_synonym frame = "column list"

definition columns :: "frame \<Rightarrow> string list" where
  "columns df = map label df"

text \<open>\<^verbatim>\<open>df.empty\<close>: no column, or no row.\<close>

definition df_empty :: "frame \<Rightarrow> bool" where
  "df_empty df = (case df of [] \<Rightarrow> True | c # _ \<Rightarrow> cells c = [])"

text \<open>\<^verbatim>\<open>len(df)\<close>: the number of rows.\<close>

definition df_len :: "frame \<Rightarrow> nat" where
  "df_len df = (case df of [] \<Rightarrow> 0 | c # _ \<Rightarrow> length (cells c))"

definition dropna :: "cell list \<Rightarrow> cell list" where
  "dropna cs = filter (\<lambda>c. c \<noteq> CNull) cs"

definition pad :: "nat \<Rightarrow> nat \<Rightarrow> string" where
  "pad w n = replicate (w - length (str_nat n)) CHR ''0'' @ str_nat n"

definition str_date :: "date \<Rightarrow> string" where
  "str_date d = pad 4 (year d) @ ''-'' @ pad 2 (month d) @ ''-'' @ pad 2 (day d)"

definition str_offset :: "int option \<Rightarrow> string" where
  "str_offset off =
     (case off of
        None \<Rightarrow> []
      | Some m \<Rightarrow>
          (if m < 0 then ''-'' else ''+'') @ pad 2 (nat \<bar>m\<bar> div 60) @ '':'' @ pad 2 (nat \<bar>m\<bar> mod 60))"

text \<open>\<^verbatim>\<open>str(value)\<close> of a non-null cell, also what \<^verbatim>\<open>f"{value}"\<close> prints.\<close>

fun py_str :: "cell \<Rightarrow> string" where
  "py_str CNull = ''nan''"
| "py_str (CStr s) = s"
| "py_str (CInt i) = str_int i"
| "py_str (CBool b) = (if b then ''True'' else ''False'')"
| "py_str (CDate d) = str_date d"
| "py_str (CTimestamp t) =
     str_date (date_of t) @ '' '' @ pad 2 (hour t) @ '':'' @ pad 2 (minute t) @ '':'' @
     pad 2 (second t) @ str_offset (utcoffset t)"

subsection \<open>\<^verbatim>\<open>decimal.Decimal\<close> from a string\<close>

text \<open>
  \<^verbatim>\<open>Decimal(s)\<close> strips white space, removes underscores and matches the rest
  against the module's grammar (case-insensitive): an optional sign, then digits with an
  optional fraction and an optional exponent, or \<^verbatim>\<open>Inf\<close>/\<^verbatim>\<open>Infinity\<close>, or
  \<^verbatim>\<open>NaN\<close>/\<^verbatim>\<open>sNaN\<close> with optional diagnostic digits. \<^verbatim>\<open>as_tuple()\<close> gives the
  sign, the digits of the coefficient without leading zeros, and the exponent, which is
  an integer for a finite number and the letter \<^verbatim>\<open>'F'\<close>, \<^verbatim>\<open>'n'\<close> or \<^verbatim>\<open>'N'\<close> for an
  infinity, a quiet NaN and a signalling NaN.
\<close>

datatype dec_exponent = Fin int | Exp_F | Exp_n | Exp_N

datatype decimal = Decimal (sign: nat) (digits: "nat list") (exponent: dec_exponent)

definition copy_abs :: "decimal \<Rightarrow> decimal" where
  "copy_abs d = Decimal 0 (digits d) (exponent d)"

fun opt_sign :: "string \<Rightarrow> bool \<times> string" where
  "opt_sign [] = (False, [])"
| "opt_sign (c # cs) =
     (if c = CHR ''-'' then (True, cs) else if c = CHR ''+'' then (False, cs) else (False, c # cs))"

text \<open>\<^verbatim>\<open>int(s)\<close> for an optional sign and digits.\<close>

definition int_of_str :: "string \<Rightarrow> int" where
  "int_of_str s =
     (case opt_sign s of (neg, ds) \<Rightarrow>
        if neg then - int (nat_of_digits ds) else int (nat_of_digits ds))"

text \<open>\<^verbatim>\<open>str(int(ds))\<close> as a digit tuple: no leading zeros, one zero if nothing else.\<close>

definition coefficient :: "string \<Rightarrow> nat list" where
  "coefficient ds =
     (case dropWhile (\<lambda>c. c = CHR ''0'') ds of [] \<Rightarrow> [0] | r \<Rightarrow> map digit_val r)"

text \<open>
  The finite alternative of the grammar: the groups \<open>int\<close>, \<open>frac\<close> (empty when
  absent) and \<open>exp\<close>. The lookahead wants a digit, or a point and a digit.
\<close>

definition match_number :: "string \<Rightarrow> (string \<times> string \<times> string option) option" where
  "match_number s =
     (let intpart = takeWhile is_digit s;
          r1 = dropWhile is_digit s;
          lookahead =
            (case s of
               [] \<Rightarrow> False
             | c # t \<Rightarrow>
                 is_digit c \<or> (c = CHR ''.'' \<and> (case t of [] \<Rightarrow> False | d # _ \<Rightarrow> is_digit d)));
          fracpart =
            (case r1 of
               [] \<Rightarrow> []
             | c # t \<Rightarrow> if c = CHR ''.'' then takeWhile is_digit t else []);
          r2 =
            (case r1 of
               [] \<Rightarrow> []
             | c # t \<Rightarrow> if c = CHR ''.'' then dropWhile is_digit t else r1)
      in if \<not> lookahead then None
         else
           (case r2 of
              [] \<Rightarrow> Some (intpart, fracpart, None)
            | e # t \<Rightarrow>
                if (e = CHR ''E'' \<or> e = CHR ''e'') \<and> snd (opt_sign t) \<noteq> [] \<and>
                   list_all is_digit (snd (opt_sign t))
                then Some (intpart, fracpart, Some t)
                else None))"

text \<open>The NaN alternative: whether it is signalling, and the diagnostic digits.\<close>

definition match_nan :: "string \<Rightarrow> (bool \<times> string) option" where
  "match_nan s =
     (let l = lower s;
          signal = (case l of [] \<Rightarrow> False | c # _ \<Rightarrow> c = CHR ''s'');
          r = (if signal then tl l else l)
      in if take 3 r = ''nan'' \<and> list_all is_digit (drop 3 r) then Some (signal, drop 3 r)
         else None)"

text \<open>
  The construction is exact within the module's largest context: a finite number whose
  adjusted exponent (exponent plus number of digits minus one) exceeds \<^verbatim>\<open>MAX_EMAX\<close>,
  or whose exponent is below \<^verbatim>\<open>MIN_ETINY\<close>, is \<^verbatim>\<open>InvalidOperation\<close>.
\<close>

definition MAX_EMAX :: int where
  "MAX_EMAX = 999999999999999999"

definition MIN_ETINY :: int where
  "MIN_ETINY = - 1999999999999999997"

definition finite_decimal :: "nat \<Rightarrow> nat list \<Rightarrow> int \<Rightarrow> decimal option" where
  "finite_decimal sg ds e =
     (if e + int (length ds) - 1 > MAX_EMAX \<or> e < MIN_ETINY then None
      else Some (Decimal sg ds (Fin e)))"

text \<open>\<^verbatim>\<open>Decimal(value)\<close>; \<open>None\<close> is \<^verbatim>\<open>InvalidOperation\<close>.\<close>

definition decimal_of_str :: "string \<Rightarrow> decimal option" where
  "decimal_of_str v =
     (let s = replace_char CHR ''_'' [] (strip v);
          sg = (if fst (opt_sign s) then 1 else 0);
          r = snd (opt_sign s)
      in case match_number r of
           Some (intpart, fracpart, ex) \<Rightarrow>
             finite_decimal sg (coefficient (intpart @ fracpart))
               ((case ex of None \<Rightarrow> 0 | Some e \<Rightarrow> int_of_str e) - int (length fracpart))
         | None \<Rightarrow>
             if lower r = ''inf'' \<or> lower r = ''infinity'' then Some (Decimal sg [0] Exp_F)
             else
               (case match_nan r of
                  Some (signal, diag) \<Rightarrow>
                    Some (Decimal sg (map digit_val (dropWhile (\<lambda>c. c = CHR ''0'') diag))
                      (if signal then Exp_N else Exp_n))
                | None \<Rightarrow> None))"

subsection \<open>Schema metadata and the constraint validator\<close>

datatype py_error = TypeError | StoreError | CallerError | ValueError | AttributeError

text \<open>One row of \<^verbatim>\<open>information_schema.columns\<close>; a null entry is \<open>None\<close>.\<close>

datatype meta_row =
  MetaRow (column_name: string) (data_type: string) (character_maximum_length: "int option")
    (numeric_precision: "int option") (numeric_scale: "int option")

definition db_col_name :: "string \<Rightarrow> string" where
  "db_col_name display_col = replace_char CHR '' '' ''_'' (upper display_col)"

definition quoted :: "string \<Rightarrow> string" where
  "quoted s = CHR 0x27 # s @ [CHR 0x27]"

text \<open>
  \<^verbatim>\<open>series.astype(str)\<close> is \<^verbatim>\<open>str(value)\<close> entry by entry, except on a datetime
  column without time zone whose values are all at midnight: that one prints its dates
  only.
\<close>

definition dates_only :: "cell list \<Rightarrow> bool" where
  "dates_only values =
     list_all
       (\<lambda>c. case c of
              CTimestamp t \<Rightarrow> utcoffset t = None \<and> hour t = 0 \<and> minute t = 0 \<and> second t = 0
            | _ \<Rightarrow> False)
       values"

definition astype_str :: "dtype \<Rightarrow> cell list \<Rightarrow> string list" where
  "astype_str dt values =
     (if dt = Datetime64 \<and> dates_only values
      then map (\<lambda>c. case c of CTimestamp t \<Rightarrow> str_date (date_of t) | _ \<Rightarrow> py_str c) values
      else map py_str values)"

text \<open>
  The VARCHAR block: \<^verbatim>\<open>series[series.str.len() > max_len_int]\<close> and its first
  entry, if any.
\<close>

definition check_max_length :: "string \<Rightarrow> int \<Rightarrow> dtype \<Rightarrow> cell list \<Rightarrow> string list" where
  "check_max_length display_col max_len_int dt values =
     (let series = astype_str dt (dropna values);
          too_long = filter (\<lambda>v. int (length v) > max_len_int) series
      in case too_long of
           [] \<Rightarrow> []
         | sample # _ \<Rightarrow>
             [display_col @ '': max length is '' @ str_int max_len_int @ '', received '' @
              quoted sample])"

text \<open>
  The digit counts of the NUMBER block, from \<^verbatim>\<open>len(digits)\<close> and an integer
  exponent.
\<close>

definition int_digits :: "nat \<Rightarrow> int \<Rightarrow> int" where
  "int_digits n e = (if e \<ge> 0 then int n + e else max (int n + e) 0)"

definition frac_digits :: "int \<Rightarrow> int" where
  "frac_digits e = (if e \<ge> 0 then 0 else - e)"

definition msg_not_valid :: "string \<Rightarrow> string \<Rightarrow> int \<Rightarrow> int \<Rightarrow> string" where
  "msg_not_valid display_col v precision_int scale_int =
     display_col @ '': value '' @ quoted v @ '' is not a valid NUMBER('' @ str_int precision_int @
     '','' @ str_int scale_int @ '')''"

definition msg_scale :: "string \<Rightarrow> string \<Rightarrow> int \<Rightarrow> int \<Rightarrow> string" where
  "msg_scale display_col v frac scale_int =
     display_col @ '': value '' @ quoted v @ '' has scale '' @ str_int frac @ '' but max is '' @
     str_int scale_int"

definition msg_exceeds :: "string \<Rightarrow> string \<Rightarrow> int \<Rightarrow> int \<Rightarrow> string" where
  "msg_exceeds display_col v precision_int scale_int =
     display_col @ '': value '' @ quoted v @ '' exceeds NUMBER('' @ str_int precision_int @
     '','' @ str_int scale_int @ '')''"

text \<open>
  One turn of the loop over the values of a NUMBER column: \<open>Inr None\<close> when the value
  passes, \<open>Inr (Some msg)\<close> when the loop appends \<open>msg\<close> and breaks, \<open>Inl TypeError\<close>
  when \<^verbatim>\<open>exponent >= 0\<close> compares a letter with 0.
\<close>

definition check_number :: "string \<Rightarrow> int \<Rightarrow> int \<Rightarrow> string \<Rightarrow> py_error + string option" where
  "check_number display_col precision_int scale_int v =
     (case decimal_of_str v of
        None \<Rightarrow> Inr (Some (msg_not_valid display_col v precision_int scale_int))
      | Some d \<Rightarrow>
          (case exponent (copy_abs d) of
             Fin e \<Rightarrow>
               (let n = length (digits (copy_abs d));
                    total_digits = int_digits n e + frac_digits e;
                    max_int_digits = max (precision_int - scale_int) 0
                in if frac_digits e > scale_int
                   then Inr (Some (msg_scale display_col v (frac_digits e) scale_int))
                   else if int_digits n e > max_int_digits \<or> total_digits > precision_int
                   then Inr (Some (msg_exceeds display_col v precision_int scale_int))
                   else Inr None)
           | _ \<Rightarrow> Inl TypeError))"

fun check_numbers :: "string \<Rightarrow> int \<Rightarrow> int \<Rightarrow> string list \<Rightarrow> py_error + string list" where
  "check_numbers display_col precision_int scale_int [] = Inr []"
| "check_numbers display_col precision_int scale_int (v # vs) =
     (case check_number display_col precision_int scale_int v of
        Inl e \<Rightarrow> Inl e
      | Inr (Some msg) \<Rightarrow> Inr [msg]
      | Inr None \<Rightarrow> check_numbers display_col precision_int scale_int vs)"

text \<open>
  The body of the loop over \<^verbatim>\<open>changes_df.columns\<close>: what one column appends. A
  column name occurs once in the catalogue of one table, and \<^verbatim>\<open>meta.loc[db_col]\<close> is
  its row.
\<close>

definition validate_column :: "meta_row list \<Rightarrow> column \<Rightarrow> py_error + string list" where
  "validate_column metadata col =
     (let display_col = label col;
          db_col = db_col_name display_col
      in case find (\<lambda>r. column_name r = db_col) metadata of
           None \<Rightarrow> Inr []
         | Some row \<Rightarrow>
             (let dtype = upper (data_type row)
              in if contains ''CHAR'' dtype \<or> contains ''TEXT'' dtype \<or> contains ''STRING'' dtype
                 then
                   (case character_maximum_length row of
                      None \<Rightarrow> Inr []
                    | Some max_len \<Rightarrow>
                        Inr (check_max_length display_col max_len (column.dtype col)
                               (cells col)))
                 else if dtype \<in> set [''NUMBER'', ''DECIMAL'', ''NUMERIC'', ''FIXED'']
                 then
                   (case numeric_precision row of
                      None \<Rightarrow> Inr []
                    | Some precision \<Rightarrow>
                        check_numbers display_col precision
                          (case numeric_scale row of None \<Rightarrow> 0 | Some scale \<Rightarrow> scale)
                          (map py_str (dropna (cells col))))
                 else Inr []))"

fun validate_columns :: "meta_row list \<Rightarrow> column list \<Rightarrow> string list \<Rightarrow> py_error + string list" where
  "validate_columns metadata [] errors = Inr errors"
| "validate_columns metadata (col # cols) errors =
     (case validate_column metadata col of
        Inl e \<Rightarrow> Inl e
      | Inr msgs \<Rightarrow> validate_columns metadata cols (errors @ msgs))"

text \<open>
  \<^verbatim>\<open>validate_changes_against_schema\<close> once \<^verbatim>\<open>get_table_schema_metadata()\<close> has
  returned \<open>metadata\<close>.
\<close>

definition validate_with :: "meta_row list \<Rightarrow> frame \<Rightarrow> py_error + string list" where
  "validate_with metadata changes_df =
     (if metadata = [] then Inr [] else validate_columns metadata changes_df [])"


subsection \<open>The verdict on one NUMBER value\<close>

text \<open>
  The checks of the NUMBER block as a classification of the value's text: whether it
  parses, its fractional digit count against the scale, then its integer digits against
  \<open>max (p - s) 0\<close> and its total digits against the precision, on the digit tuple
  and exponent that \<^verbatim>\<open>as_tuple()\<close> gives. \<open>Raises\<close> is the value whose exponent is
  a letter (an infinity or a NaN).
\<close>

datatype verdict = Pass | Not_Valid | Scale_Violation | Precision_Overflow | Raises

definition number_verdict :: "int \<Rightarrow> int \<Rightarrow> string \<Rightarrow> verdict" where
  "number_verdict p s v =
     (case decimal_of_str v of
        None \<Rightarrow> Not_Valid
      | Some d \<Rightarrow>
          (case exponent d of
             Fin e \<Rightarrow>
               if frac_digits e > s then Scale_Violation
               else if int_digits (length (digits d)) e > max (p - s) 0 \<or>
                       int_digits (length (digits d)) e + frac_digits e > p
               then Precision_Overflow
               else Pass
           | _ \<Rightarrow> Raises))"

text \<open>The fractional digit count of a value that parses as a finite decimal.\<close>

definition scale_of :: "string \<Rightarrow> int" where
  "scale_of v =
     (case decimal_of_str v of
        Some d \<Rightarrow> (case exponent d of Fin e \<Rightarrow> frac_digits e | _ \<Rightarrow> 0)
      | None \<Rightarrow> 0)"

text \<open>The message that goes with a verdict, citing the column and the value.\<close>

definition violation :: "string \<Rightarrow> int \<Rightarrow> int \<Rightarrow> string \<Rightarrow> verdict \<Rightarrow> string" where
  "violation display_col p s v k =
     (case k of
        Not_Valid \<Rightarrow> msg_not_valid display_col v p s
      | Scale_Violation \<Rightarrow> msg_scale display_col v (scale_of v) s
      | _ \<Rightarrow> msg_exceeds display_col v p s)"

definition outcome :: "string \<Rightarrow> int \<Rightarrow> int \<Rightarrow> string \<Rightarrow> verdict \<Rightarrow> py_error + string option" where
  "outcome display_col p s v k =
     (case k of
        Pass \<Rightarrow> Inr None
      | Raises \<Rightarrow> Inl TypeError
      | _ \<Rightarrow> Inr (Some (violation display_col p s v k)))"

subsection \<open>Configuration, the store and the session\<close>

text \<open>
  The module \<^verbatim>\<open>constants\<close> is a parameter. \<^verbatim>\<open>PRIMARY_KEY\<close> is one name or a
  list of names; \<^verbatim>\<open>LOCK_COL\<close> and \<^verbatim>\<open>ORDER_BY\<close> may be \<^verbatim>\<open>None\<close> or empty.
\<close>

datatype primary_key = One string | Many "string list"

record config =
  PRIMARY_KEY :: primary_key
  LOCK_COL :: "string option"
  DATABASE :: string
  SCHEMA :: string
  TABLE :: string
  ORDER_BY :: "string option"
  PENDING_TABLE :: string
  PENDING_STAGE_TABLE :: string

definition BASE_MERGE_STAGE_TABLE :: string where
  "BASE_MERGE_STAGE_TABLE = ''STREAMLIT_TABLE_BASE_CHANGES''"

definition nl :: string where
  "nl = [CHR 0x0A]"

text \<open>
  What the Snowpark session is asked: \<^verbatim>\<open>session.sql(q).to_pandas()\<close>,
  \<^verbatim>\<open>session.sql(q).collect()\<close> and \<^verbatim>\<open>session.write_pandas(df, table_name=t,
  overwrite=True, table_type="temp", ...)\<close>. The store answers a call, given the calls
  made before it, with a frame, with the rows of the schema catalogue, with the number
  of rows a statement reports as affected, or with nothing to report; \<open>None\<close> is a call
  that raises.
\<close>

datatype store_call = Sql_to_pandas string | Sql_collect string | Write_pandas frame string

datatype reply = Rows frame | Catalogue "meta_row list" | Affected nat | Written

type_synonym store = "store_call list \<Rightarrow> store_call \<Rightarrow> reply option"

datatype tag = Tag (tag_type: string) (min_date: "date option") (max_date: "date option")

datatype ui = Info string | Error string | Caption string | Success string

text \<open>
  The state a run of the script works on: the calls made to the session so far, the
  module-level \<^verbatim>\<open>column_tags\<close>, the entries of \<^verbatim>\<open>st.session_state\<close>, what was put
  on the page and in the write-back log, and (a ghost field) the names of the functions
  the Save Changes handler has called.
\<close>

record world =
  calls :: "store_call list"
  column_tags :: "string \<rightharpoonup> tag"
  session_df :: frame
  original_df :: frame
  filtered_df :: "frame option"
  edit_mode :: bool
  reset_filters_pending :: bool
  shown :: "ui list"
  logged :: "string list"
  invoked :: "string list"

definition ask :: "store \<Rightarrow> store_call \<Rightarrow> world \<Rightarrow> reply option \<times> world" where
  "ask st c w = (st (calls w) c, w\<lparr>calls := calls w @ [c]\<rparr>)"

subsection \<open>Fetching the schema and validating in the session\<close>

definition schema_sql :: "config \<Rightarrow> string" where
  "schema_sql cfg =
     nl @ ''        select'' @ nl @
     ''            column_name,'' @ nl @
     ''            data_type,'' @ nl @
     ''            character_maximum_length,'' @ nl @
     ''            numeric_precision,'' @ nl @
     ''            numeric_scale'' @ nl @
     ''        from '' @ DATABASE cfg @ ''.information_schema.columns'' @ nl @
     ''        where table_schema = '' @ quoted (SCHEMA cfg) @ nl @
     ''          and table_name = '' @ quoted (TABLE cfg) @ nl @
     ''    ''"

definition get_table_schema_metadata ::
  "config \<Rightarrow> store \<Rightarrow> world \<Rightarrow> (py_error + meta_row list) \<times> world" where
  "get_table_schema_metadata cfg st w =
     (case ask st (Sql_to_pandas (schema_sql cfg)) w of
        (Some (Catalogue metadata), w') \<Rightarrow> (Inr metadata, w')
      | (_, w') \<Rightarrow> (Inl StoreError, w'))"

definition validate_changes_against_schema ::
  "config \<Rightarrow> store \<Rightarrow> frame \<Rightarrow> world \<Rightarrow> (py_error + string list) \<times> world" where
  "validate_changes_against_schema cfg st changes_df w =
     (if df_empty changes_df then (Inr [], w)
      else
        (case get_table_schema_metadata cfg st w of
           (Inl e, w') \<Rightarrow> (Inl e, w')
         | (Inr metadata, w') \<Rightarrow> (validate_with metadata changes_df, w')))"

subsection \<open>The upsert engine\<close>

definition pk_cols :: "config \<Rightarrow> string list" where
  "pk_cols cfg = (case PRIMARY_KEY cfg of One k \<Rightarrow> [k] | Many ks \<Rightarrow> ks)"

definition pk_cols_db :: "config \<Rightarrow> string list" where
  "pk_cols_db cfg = map db_col_name (pk_cols cfg)"

text \<open>\<^verbatim>\<open>LOCK_COL.upper().replace(" ", "_") if LOCK_COL else None\<close>, tested again by
  \<^verbatim>\<open>if lock_col\<close>: an empty name counts as none.\<close>

definition lock_col :: "config \<Rightarrow> string option" where
  "lock_col cfg =
     (case LOCK_COL cfg of
        None \<Rightarrow> None
      | Some l \<Rightarrow> if l = [] \<or> db_col_name l = [] then None else Some (db_col_name l))"

definition exclude_cols :: "config \<Rightarrow> string set" where
  "exclude_cols cfg = set (pk_cols_db cfg) \<union> set_option (lock_col cfg)"

definition update_cols :: "config \<Rightarrow> frame \<Rightarrow> string list" where
  "update_cols cfg changes_df = filter (\<lambda>c. c \<notin> exclude_cols cfg) (columns changes_df)"

definition assignment :: "string \<Rightarrow> string" where
  "assignment c = ''prd.'' @ c @ '' = src.'' @ c"

definition set_clause :: "config \<Rightarrow> frame \<Rightarrow> string" where
  "set_clause cfg changes_df = join '', '' (map assignment (update_cols cfg changes_df))"

definition on_clause :: "config \<Rightarrow> string" where
  "on_clause cfg = join '' and '' (map assignment (pk_cols_db cfg))"

definition merge_head :: "config \<Rightarrow> string" where
  "merge_head cfg =
     nl @ ''        merge into '' @ DATABASE cfg @ ''.'' @ SCHEMA cfg @ ''.'' @ TABLE cfg @
     ''                  prd'' @ nl @
     ''        using '' @ DATABASE cfg @ ''.'' @ SCHEMA cfg @ ''.'' @ BASE_MERGE_STAGE_TABLE @
     ''               src'' @ nl @
     ''        on '' @ on_clause cfg @ nl @
     ''        when matched then update set'' @ nl @
     ''          ''"

definition merge_sql :: "config \<Rightarrow> frame \<Rightarrow> string" where
  "merge_sql cfg changes_df =
     (case lock_col cfg of
        Some l \<Rightarrow>
          merge_head cfg @ set_clause cfg changes_df @ '','' @ nl @
          ''          prd.'' @ l @ '' = current_timestamp()'' @ nl @ ''    ''
      | None \<Rightarrow> merge_head cfg @ set_clause cfg changes_df @ nl @ ''    '')"

text \<open>The frame with \<^verbatim>\<open>changes_df.columns\<close> renamed to store names.\<close>

definition store_names :: "frame \<Rightarrow> frame" where
  "store_names changes_df = map (\<lambda>c. Column (db_col_name (label c)) (dtype c) (cells c)) changes_df"

definition merge_changes :: "config \<Rightarrow> store \<Rightarrow> frame \<Rightarrow> world \<Rightarrow> (py_error + nat) \<times> world" where
  "merge_changes cfg st changes_df0 w =
     (let changes_df = store_names changes_df0
      in if df_empty changes_df then (Inr 0, w)
         else
           (case ask st (Write_pandas changes_df BASE_MERGE_STAGE_TABLE) w of
              (None, w1) \<Rightarrow> (Inl StoreError, w1)
            | (Some _, w1) \<Rightarrow>
                (case ask st (Sql_collect (merge_sql cfg changes_df)) w1 of
                   (None, w2) \<Rightarrow> (Inl StoreError, w2)
                 | (Some _, w2) \<Rightarrow> (Inr (df_len changes_df), w2))))"

subsection \<open>The pending-approval queue\<close>

definition pending_table_sql :: "config \<Rightarrow> string list \<Rightarrow> string" where
  "pending_table_sql cfg pk_cols_db' =
     nl @ ''        create table if not exists '' @ DATABASE cfg @ ''.'' @ SCHEMA cfg @ ''.'' @
     PENDING_TABLE cfg @ '' ('' @ nl @
     ''            '' @ join ('','' @ nl @ ''            '') (map (\<lambda>col. col @ '' VARCHAR'') pk_cols_db') @
     '','' @ nl @
     ''            column_name STRING,'' @ nl @
     ''            old_value VARIANT,'' @ nl @
     ''            new_value VARIANT,'' @ nl @
     ''            changed_by STRING,'' @ nl @
     ''            changed_at TIMESTAMP_NTZ default current_timestamp(),'' @ nl @
     ''            approval_status STRING default '' @ quoted ''PENDING'' @ nl @
     ''        )'' @ nl @
     ''    ''"

definition ensure_pending_table_exists ::
  "config \<Rightarrow> store \<Rightarrow> string list \<Rightarrow> world \<Rightarrow> (py_error + unit) \<times> world" where
  "ensure_pending_table_exists cfg st pk_cols_db' w =
     (case ask st (Sql_collect (pending_table_sql cfg pk_cols_db')) w of
        (None, w') \<Rightarrow> (Inl StoreError, w')
      | (Some _, w') \<Rightarrow> (Inr (), w'))"

definition pending_insert_sql :: "config \<Rightarrow> string" where
  "pending_insert_sql cfg =
     nl @ ''        insert into '' @ DATABASE cfg @ ''.'' @ SCHEMA cfg @ ''.'' @ PENDING_TABLE cfg @
     '' ('' @ nl @
     ''            '' @
     join ('','' @ nl @ ''            '')
       (pk_cols_db cfg @ [''column_name'', ''old_value'', ''new_value'', ''changed_by'']) @ nl @
     ''        )'' @ nl @
     ''        select'' @ nl @
     ''            '' @
     join ('','' @ nl @ ''            '')
       (pk_cols_db cfg @
        [''column_name'', ''to_variant(old_value)'', ''to_variant(new_value)'', ''current_user()'']) @
     nl @
     ''        from '' @ DATABASE cfg @ ''.'' @ SCHEMA cfg @ ''.'' @ PENDING_STAGE_TABLE cfg @ nl @
     ''    ''"

definition log_pending_changes ::
  "config \<Rightarrow> store \<Rightarrow> frame \<Rightarrow> world \<Rightarrow> (py_error + nat) \<times> world" where
  "log_pending_changes cfg st change_log_df w =
     (if df_empty change_log_df then (Inr 0, w)
      else
        (case ask st (Write_pandas change_log_df (PENDING_STAGE_TABLE cfg)) w of
           (None, w1) \<Rightarrow> (Inl StoreError, w1)
         | (Some _, w1) \<Rightarrow>
             (case ensure_pending_table_exists cfg st (pk_cols_db cfg) w1 of
                (Inl e, w2) \<Rightarrow> (Inl e, w2)
              | (Inr _, w2) \<Rightarrow>
                  (case ask st (Sql_collect (pending_insert_sql cfg)) w2 of
                     (None, w3) \<Rightarrow> (Inl StoreError, w3)
                   | (Some _, w3) \<Rightarrow> (Inr (df_len change_log_df), w3)))))"

subsection \<open>The column tagger\<close>

text \<open>\<^verbatim>\<open>pd.api.types.is_numeric_dtype\<close>: integers, floats and booleans.\<close>

definition is_numeric :: "column \<Rightarrow> bool" where
  "is_numeric series = (dtype series = Int64 \<or> dtype series = Float64 \<or> dtype series = Boolean)"

text \<open>
  \<^verbatim>\<open>df.convert_dtypes()\<close> gives a new frame with the same labels, rows and values;
  an object column whose non-null values are all strings, all integers or all booleans
  gets the nullable dtype of that kind.
\<close>

definition is_str :: "cell \<Rightarrow> bool" where
  "is_str c = (case c of CStr _ \<Rightarrow> True | _ \<Rightarrow> False)"

definition is_int :: "cell \<Rightarrow> bool" where
  "is_int c = (case c of CInt _ \<Rightarrow> True | _ \<Rightarrow> False)"

definition is_bool :: "cell \<Rightarrow> bool" where
  "is_bool c = (case c of CBool _ \<Rightarrow> True | _ \<Rightarrow> False)"

definition nullable_dtype :: "column \<Rightarrow> dtype" where
  "nullable_dtype c =
     (if dtype c \<noteq> Object \<or> dropna (cells c) = [] then dtype c
      else if list_all is_str (dropna (cells c)) then String
      else if list_all is_int (dropna (cells c)) then Int64
      else if list_all is_bool (dropna (cells c)) then Boolean
      else Object)"

definition convert_dtypes :: "frame \<Rightarrow> frame" where
  "convert_dtypes df = map (\<lambda>c. Column (label c) (nullable_dtype c) (cells c)) df"

text \<open>
  \<^verbatim>\<open>pd.to_datetime(series, format=f, errors="coerce")\<close> gives, entry by entry, a
  timestamp or NaT (\<open>None\<close>), and NaT for a null entry. Which texts a format accepts is
  the library's matter: the conversion of a non-null entry under the format
  \<^verbatim>\<open>"%Y-%m-%d %H:%M:%S%z"\<close> and under \<^verbatim>\<open>"%Y-%m-%d"\<close> are the parameters
  \<open>fmt_ts\<close> and \<open>fmt_d\<close> of the tagger.
\<close>

type_synonym strptime = "cell \<Rightarrow> timestamp option"

definition to_datetime :: "strptime \<Rightarrow> cell list \<Rightarrow> timestamp option list" where
  "to_datetime fmt values = map (\<lambda>c. if c = CNull then None else fmt c) values"

definition notna_all :: "timestamp option list \<Rightarrow> bool" where
  "notna_all parsed = list_all (\<lambda>p. p \<noteq> None) parsed"

text \<open>The order of timestamps is the order of their instants: seconds since the epoch.\<close>

definition days_from_civil :: "date \<Rightarrow> int" where
  "days_from_civil d =
     (let y = int (year d) - (if month d \<le> 2 then 1 else 0);
          era = y div 400;
          yoe = y - era * 400;
          mp = (if month d > 2 then int (month d) - 3 else int (month d) + 9);
          doy = (153 * mp + 2) div 5 + int (day d) - 1;
          doe = yoe * 365 + yoe div 4 - yoe div 100 + doy
      in era * 146097 + doe - 719468)"

definition epoch_seconds :: "timestamp \<Rightarrow> int" where
  "epoch_seconds t =
     days_from_civil (date_of t) * 86400 + int (hour t) * 3600 + int (minute t) * 60 +
     int (second t) - (case utcoffset t of None \<Rightarrow> 0 | Some m \<Rightarrow> m * 60)"

text \<open>\<^verbatim>\<open>parsed.min()\<close> and \<^verbatim>\<open>parsed.max()\<close>; NaT (\<open>None\<close>) for no rows.\<close>

definition ts_min :: "timestamp list \<Rightarrow> timestamp option" where
  "ts_min ts =
     (case ts of
        [] \<Rightarrow> None
      | t # r \<Rightarrow> Some (foldl (\<lambda>a b. if epoch_seconds b < epoch_seconds a then b else a) t r))"

definition ts_max :: "timestamp list \<Rightarrow> timestamp option" where
  "ts_max ts =
     (case ts of
        [] \<Rightarrow> None
      | t # r \<Rightarrow> Some (foldl (\<lambda>a b. if epoch_seconds b > epoch_seconds a then b else a) t r))"

definition is_midnight :: "timestamp \<Rightarrow> bool" where
  "is_midnight t = (hour t = 0 \<and> minute t = 0 \<and> second t = 0)"


fun set_series :: "frame \<Rightarrow> string \<Rightarrow> dtype \<Rightarrow> cell list \<Rightarrow> frame" where
  "set_series [] col dt values = [Column col dt values]"
| "set_series (c # cs) col dt values =
     (if label c = col then Column col dt values # cs else c # set_series cs col dt values)"

text \<open>
  The tag the loop leaves for an accepted column: \<^verbatim>\<open>"date"\<close> when every parsed
  value is at midnight, \<^verbatim>\<open>"timestamp"\<close> otherwise, with the dates of the smallest and
  the largest parsed value.
\<close>

definition tag_of :: "timestamp list \<Rightarrow> tag" where
  "tag_of ts =
     Tag (if list_all is_midnight ts then ''date'' else ''timestamp'')
       (map_option date_of (ts_min ts)) (map_option date_of (ts_max ts))"

definition parse_series :: "strptime \<Rightarrow> strptime \<Rightarrow> cell list \<Rightarrow> timestamp option list" where
  "parse_series fmt_ts fmt_d values =
     (let parsed = to_datetime fmt_ts values
      in if \<not> notna_all parsed then to_datetime fmt_d values else parsed)"

text \<open>
  The parsed values of a datetime column share one UTC offset, or have none. A parse
  that gives different offsets gives a column of Python datetimes instead, and the
  \<^verbatim>\<open>.dt\<close> accessor raises on that one.
\<close>

definition same_offset :: "timestamp list \<Rightarrow> bool" where
  "same_offset ts =
     (case ts of [] \<Rightarrow> True | t # r \<Rightarrow> list_all (\<lambda>u. utcoffset u = utcoffset t) r)"

text \<open>
  One turn of the loop over \<^verbatim>\<open>df.columns\<close>, on the frame and \<^verbatim>\<open>column_tags\<close>:
  the frame after the turn or the exception that ends the loop, and the registry, which
  keeps what was written before an exception. Under a repeated label \<^verbatim>\<open>df[col]\<close> is a
  frame, not a series, and \<^verbatim>\<open>pd.to_datetime\<close> raises on it. With different offsets
  among the parsed values the tag and its bounds are written, then
  \<^verbatim>\<open>parsed.dt.time\<close> raises.
\<close>

definition convert_column ::
  "strptime \<Rightarrow> strptime \<Rightarrow> frame \<times> (string \<rightharpoonup> tag) \<Rightarrow> string \<Rightarrow>
   (py_error + frame) \<times> (string \<rightharpoonup> tag)" where
  "convert_column fmt_ts fmt_d state col =
     (case state of (df, tags) \<Rightarrow>
        (case filter (\<lambda>c. label c = col) df of
           [series] \<Rightarrow>
             if is_numeric series then (Inr df, tags)
             else
               (let parsed = parse_series fmt_ts fmt_d (cells series)
                in if notna_all parsed
                   then
                     (let ts = map the parsed
                      in if \<not> same_offset ts
                         then (Inl AttributeError,
                               tags(col \<mapsto> Tag ''timestamp'' (map_option date_of (ts_min ts))
                                              (map_option date_of (ts_max ts))))
                         else if list_all is_midnight ts
                         then (Inr (set_series df col Object (map (\<lambda>t. CDate (date_of t)) ts)),
                               tags(col \<mapsto> tag_of ts))
                         else (Inr (set_series df col Datetime64 (map CTimestamp ts)),
                               tags(col \<mapsto> tag_of ts)))
                   else (Inr df, tags))
         | _ \<Rightarrow> (Inl ValueError, tags)))"

text \<open>The loop: it ends at the first turn that raises.\<close>

fun convert_columns ::
  "strptime \<Rightarrow> strptime \<Rightarrow> frame \<times> (string \<rightharpoonup> tag) \<Rightarrow> string list \<Rightarrow>
   (py_error + frame) \<times> (string \<rightharpoonup> tag)" where
  "convert_columns fmt_ts fmt_d (df, tags) [] = (Inr df, tags)"
| "convert_columns fmt_ts fmt_d (df, tags) (col # cols) =
     (case convert_column fmt_ts fmt_d (df, tags) col of
        (Inl e, tags') \<Rightarrow> (Inl e, tags')
      | (Inr df', tags') \<Rightarrow> convert_columns fmt_ts fmt_d (df', tags') cols)"

definition auto_convert_dtypes ::
  "strptime \<Rightarrow> strptime \<Rightarrow> (string \<rightharpoonup> tag) \<Rightarrow> frame \<Rightarrow>
   (py_error + frame) \<times> (string \<rightharpoonup> tag)" where
  "auto_convert_dtypes fmt_ts fmt_d tags df0 =
     (let df = convert_dtypes df0
      in convert_columns fmt_ts fmt_d (df, tags) (columns df))"

subsection \<open>Loading and refreshing\<close>

text \<open>\<^verbatim>\<open>col.split('_')\<close>, \<^verbatim>\<open>word.capitalize()\<close> and \<^verbatim>\<open>format_col\<close>.\<close>

fun split_on :: "char \<Rightarrow> string \<Rightarrow> string list" where
  "split_on sep [] = [[]]"
| "split_on sep (c # cs) =
     (if c = sep then [] # split_on sep cs
      else (case split_on sep cs of [] \<Rightarrow> [[c]] | w # ws \<Rightarrow> (c # w) # ws))"

definition capitalize :: "string \<Rightarrow> string" where
  "capitalize word = (case word of [] \<Rightarrow> [] | c # cs \<Rightarrow> upper_char c # lower cs)"

definition format_col :: "string \<Rightarrow> string" where
  "format_col col =
     join '' '' (map (\<lambda>word. if lower word = ''id'' then ''ID'' else capitalize word)
       (split_on CHR ''_'' col))"

definition clean_column_names :: "frame \<Rightarrow> frame" where
  "clean_column_names df = map (\<lambda>c. Column (format_col (label c)) (dtype c) (cells c)) df"

definition select_sql :: "config \<Rightarrow> string" where
  "select_sql cfg =
     nl @ ''        SELECT *'' @ nl @
     ''        FROM '' @ DATABASE cfg @ ''.'' @ SCHEMA cfg @ ''.'' @ TABLE cfg @
     (case ORDER_BY cfg of
        None \<Rightarrow> []
      | Some ob \<Rightarrow> if ob = [] then [] else '' ORDER BY '' @ ob) @ nl @
     ''    ''"

text \<open>The body of \<^verbatim>\<open>load_data\<close> (what runs when the cache has no entry).\<close>

definition load_data ::
  "config \<Rightarrow> store \<Rightarrow> strptime \<Rightarrow> strptime \<Rightarrow> world \<Rightarrow> (py_error + frame) \<times> world" where
  "load_data cfg st fmt_ts fmt_d w =
     (case ask st (Sql_to_pandas (select_sql cfg)) w of
        (Some (Rows raw), w') \<Rightarrow>
          (case auto_convert_dtypes fmt_ts fmt_d (column_tags w') (clean_column_names raw) of
             (Inl e, tags) \<Rightarrow> (Inl e, w'\<lparr>column_tags := tags\<rparr>)
           | (Inr df, tags) \<Rightarrow> (Inr df, w'\<lparr>column_tags := tags\<rparr>))
      | (_, w') \<Rightarrow> (Inl StoreError, w'))"

text \<open>\<^verbatim>\<open>refresh_data\<close>: the cache is cleared first, so the body of \<^verbatim>\<open>load_data\<close> runs.\<close>

definition refresh_data ::
  "config \<Rightarrow> store \<Rightarrow> strptime \<Rightarrow> strptime \<Rightarrow> world \<Rightarrow> (py_error + unit) \<times> world" where
  "refresh_data cfg st fmt_ts fmt_d w =
     (case load_data cfg st fmt_ts fmt_d w of
        (Inl e, w') \<Rightarrow> (Inl e, w')
      | (Inr df, w') \<Rightarrow>
          (Inr (), w'\<lparr>session_df := df, filtered_df := Some df, reset_filters_pending := True\<rparr>))"

subsection \<open>The Save Changes handler\<close>

text \<open>
  How the run of the script ends at the handler: it goes on to the end of the script,
  \<^verbatim>\<open>st.stop()\<close> ends it, \<^verbatim>\<open>st.rerun()\<close> starts it again, or an exception leaves it.
  \<^verbatim>\<open>get_changed_rows\<close> and \<^verbatim>\<open>build_change_log\<close> (module \<^verbatim>\<open>controllers.edits\<close>)
  are parameters. \<^verbatim>\<open>st.stop()\<close> and \<^verbatim>\<open>st.rerun()\<close> leave the \<^verbatim>\<open>try\<close> block with
  a script-control exception that \<^verbatim>\<open>except Exception\<close> does not catch.
\<close>

datatype ending = Goes_on | Stops | Reruns | Raised py_error

definition display :: "ui list \<Rightarrow> world \<Rightarrow> world" where
  "display msgs w = w\<lparr>shown := shown w @ msgs\<rparr>"

definition call :: "string \<Rightarrow> world \<Rightarrow> world" where
  "call name w = w\<lparr>invoked := invoked w @ [name]\<rparr>"

text \<open>The \<^verbatim>\<open>except Exception\<close> branch.\<close>

definition write_back_failed :: "world \<Rightarrow> ending \<times> world" where
  "write_back_failed w =
     (Goes_on,
      display [Error ''Error while saving changes. Please try again or contact support.'']
        (w\<lparr>logged := logged w @ [''Write-back failed'']\<rparr>))"

definition save_changes ::
  "config \<Rightarrow> store \<Rightarrow> strptime \<Rightarrow> strptime \<Rightarrow> (frame \<Rightarrow> frame \<Rightarrow> py_error + frame) \<Rightarrow>
   (frame \<Rightarrow> frame \<Rightarrow> py_error + frame) \<Rightarrow> frame \<Rightarrow> world \<Rightarrow> ending \<times> world" where
  "save_changes cfg st fmt_ts fmt_d get_changed_rows build_change_log edited_df w =
     (case get_changed_rows edited_df (original_df w) of
        Inl e \<Rightarrow> (Raised e, call ''get_changed_rows'' w)
      | Inr changes_df \<Rightarrow>
          if df_empty changes_df
          then (Goes_on, display [Info ''No changes detected.''] (call ''get_changed_rows'' w))
          else
            (case validate_changes_against_schema cfg st changes_df
                    (call ''validate_changes_against_schema'' (call ''get_changed_rows'' w)) of
               (Inl e, w1) \<Rightarrow> write_back_failed w1
             | (Inr validation_errors, w1) \<Rightarrow>
                 if validation_errors \<noteq> []
                 then (Stops,
                       display (Error ''Validation failed. Please fix the following values:'' #
                                map (\<lambda>msg. Caption (''- '' @ msg)) validation_errors) w1)
                 else
                   (case build_change_log changes_df (original_df w1) of
                      Inl e \<Rightarrow> write_back_failed (call ''build_change_log'' w1)
                    | Inr change_log_df \<Rightarrow>
                        (case merge_changes cfg st changes_df
                                (call ''merge_changes'' (call ''build_change_log'' w1)) of
                           (Inl e, w2) \<Rightarrow> write_back_failed w2
                         | (Inr _, w2) \<Rightarrow>
                             (case log_pending_changes cfg st change_log_df
                                     (call ''log_pending_changes'' w2) of
                                (Inl e, w3) \<Rightarrow> write_back_failed w3
                              | (Inr _, w3) \<Rightarrow>
                                  (case refresh_data cfg st fmt_ts fmt_d (call ''refresh_data'' w3) of
                                     (Inl e, w4) \<Rightarrow> write_back_failed w4
                                   | (Inr _, w4) \<Rightarrow>
                                       (Reruns,
                                        display
                                          [Success
                                             ([CHR 0xE2, CHR 0x9C, CHR 0x85] @
                                              '' Changes saved successfully.'')]
                                          (w4\<lparr>edit_mode := False\<rparr>))))))))"

subsection \<open>A configuration, a store and a session for concrete runs\<close>

definition config0 :: config where
  "config0 =
     \<lparr>PRIMARY_KEY = One ''Order Id'', LOCK_COL = Some ''Last Modified'', DATABASE = ''SHOP'',
      SCHEMA = ''PUBLIC'', TABLE = ''SHOP_ORDERS'', ORDER_BY = Some ''ORDER_ID'',
      PENDING_TABLE = ''PENDING_CHANGES'', PENDING_STAGE_TABLE = ''PENDING_CHANGES_STAGE''\<rparr>"

definition catalogue0 :: "meta_row list" where
  "catalogue0 =
     [MetaRow ''ORDER_ID'' ''NUMBER'' None (Some 38) (Some 0),
      MetaRow ''ORDER_STATUS'' ''TEXT'' (Some 1) None None,
      MetaRow ''AMOUNT'' ''NUMBER'' None (Some 10) (Some 2)]"

text \<open>
  A store that answers every \<^verbatim>\<open>to_pandas\<close> with the catalogue, accepts every write,
  and reports no row affected by any statement (no staged key matches a row).
\<close>

definition store0 :: store where
  "store0 history c =
     (case c of
        Sql_to_pandas q \<Rightarrow> Some (Catalogue catalogue0)
      | Sql_collect q \<Rightarrow> Some (Affected 0)
      | Write_pandas f t \<Rightarrow> Some Written)"

definition frame0 :: frame where
  "frame0 =
     [Column ''Order ID'' Int64 [CInt 1, CInt 2],
      Column ''Order Status'' String [CStr ''A'', CStr ''B''],
      Column ''Amount'' Object [CStr ''12.34'', CStr ''5'']]"

definition world0 :: world where
  "world0 =
     \<lparr>calls = [], column_tags = Map.empty, session_df = frame0, original_df = frame0,
      filtered_df = None, edit_mode = True, reset_filters_pending = False, shown = [],
      logged = [], invoked = []\<rparr>"

subsection \<open>What the tagger does to one column\<close>

text \<open>
  A column is accepted as temporal when it is not numeric and every entry of its parse
  (under the timestamp format or, failing that, under the date-only format) is a
  timestamp. \<open>converted_column\<close> is the column the loop leaves in the frame when its
  turn does not raise, \<open>new_tags\<close> the entries a loop that does not raise writes into
  \<^verbatim>\<open>column_tags\<close> for a frame.
\<close>

definition accepted :: "strptime \<Rightarrow> strptime \<Rightarrow> column \<Rightarrow> bool" where
  "accepted fmt_ts fmt_d c = (\<not> is_numeric c \<and> notna_all (parse_series fmt_ts fmt_d (cells c)))"

definition parsed_values :: "strptime \<Rightarrow> strptime \<Rightarrow> column \<Rightarrow> timestamp list" where
  "parsed_values fmt_ts fmt_d c = map the (parse_series fmt_ts fmt_d (cells c))"

definition converted_column :: "strptime \<Rightarrow> strptime \<Rightarrow> column \<Rightarrow> column" where
  "converted_column fmt_ts fmt_d c =
     (if accepted fmt_ts fmt_d c
      then
        (if list_all is_midnight (parsed_values fmt_ts fmt_d c)
         then Column (label c) Object (map (\<lambda>t. CDate (date_of t)) (parsed_values fmt_ts fmt_d c))
         else Column (label c) Datetime64 (map CTimestamp (parsed_values fmt_ts fmt_d c)))
      else c)"

fun new_tags :: "strptime \<Rightarrow> strptime \<Rightarrow> frame \<Rightarrow> (string \<rightharpoonup> tag)" where
  "new_tags fmt_ts fmt_d [] = Map.empty"
| "new_tags fmt_ts fmt_d (c # cs) =
     (if accepted fmt_ts fmt_d c
      then [label c \<mapsto> tag_of (parsed_values fmt_ts fmt_d c)] ++ new_tags fmt_ts fmt_d cs
      else new_tags fmt_ts fmt_d cs)"

text \<open>
  What the conversion may do to one cell: leave it, or put in its place the timestamp it
  parses to under one of the two formats, or the date of that timestamp.
\<close>

definition cell_converted :: "strptime \<Rightarrow> strptime \<Rightarrow> cell \<Rightarrow> cell \<Rightarrow> bool" where
  "cell_converted fmt_ts fmt_d c c' =
     (c' = c \<or>
      (c \<noteq> CNull \<and>
       (case fmt_ts c of Some t \<Rightarrow> c' = CTimestamp t \<or> c' = CDate (date_of t) | None \<Rightarrow> False)) \<or>
      (c \<noteq> CNull \<and>
       (case fmt_d c of Some t \<Rightarrow> c' = CTimestamp t \<or> c' = CDate (date_of t) | None \<Rightarrow> False)))"

subsection \<open>Stand-ins for the two formats in concrete runs\<close>

text \<open>
  The zero-padded forms \<^verbatim>\<open>YYYY-MM-DD\<close> and \<^verbatim>\<open>YYYY-MM-DD HH:MM:SS+HHMM\<close> of
  the two formats, for texts only; they stand for the library's parsers in the concrete
  runs below and nowhere else.
\<close>

definition two_digits :: "string \<Rightarrow> nat option" where
  "two_digits s = (if length s = 2 \<and> list_all is_digit s then Some (nat_of_digits s) else None)"

definition days_in_month :: "nat \<Rightarrow> nat \<Rightarrow> nat" where
  "days_in_month y m =
     (if m = 2 then (if y mod 4 = 0 \<and> (y mod 100 \<noteq> 0 \<or> y mod 400 = 0) then 29 else 28)
      else if m = 4 \<or> m = 6 \<or> m = 9 \<or> m = 11 then 30
      else 31)"

definition iso_date_text :: "string \<Rightarrow> date option" where
  "iso_date_text s =
     (if length s = 10 \<and> list_all is_digit (take 4 s) \<and> s ! 4 = CHR ''-'' \<and> s ! 7 = CHR ''-''
      then
        (case (two_digits (take 2 (drop 5 s)), two_digits (drop 8 s)) of
           (Some m, Some d) \<Rightarrow>
             if 1 \<le> m \<and> m \<le> 12 \<and> 1 \<le> d \<and> d \<le> days_in_month (nat_of_digits (take 4 s)) m
             then Some (Date (nat_of_digits (take 4 s)) m d)
             else None
         | _ \<Rightarrow> None)
      else None)"

definition iso_date :: strptime where
  "iso_date c =
     (case c of
        CStr s \<Rightarrow> map_option (\<lambda>d. Timestamp d 0 0 0 None) (iso_date_text s)
      | _ \<Rightarrow> None)"

definition iso_timestamp :: strptime where
  "iso_timestamp c =
     (case c of
        CStr s \<Rightarrow>
          (if length s = 24 \<and> s ! 10 = CHR '' '' \<and> s ! 13 = CHR '':'' \<and> s ! 16 = CHR '':'' \<and>
              (s ! 19 = CHR ''+'' \<or> s ! 19 = CHR ''-'')
           then
             (case (iso_date_text (take 10 s), two_digits (take 2 (drop 11 s)),
                    two_digits (take 2 (drop 14 s)), two_digits (take 2 (drop 17 s)),
                    two_digits (take 2 (drop 20 s)), two_digits (drop 22 s)) of
                (Some d, Some h, Some mi, Some sec, Some oh, Some om) \<Rightarrow>
                  if h < 24 \<and> mi < 60 \<and> sec < 60 \<and> om < 60
                  then Some (Timestamp d h mi sec
                         (Some ((if s ! 19 = CHR ''-'' then - 1 else 1) * (int oh * 60 + int om))))
                  else None
              | _ \<Rightarrow> None)
           else None)
      | _ \<Rightarrow> None)"

section \<open>Verified properties\<close>

subsection \<open>Shared lemmas\<close>


subsection \<open>The constraint validator\<close>

lemma check_number_outcome:
  "check_number c p s v = outcome c p s v (number_verdict p s v)"
  by (simp add: check_number_def outcome_def number_verdict_def violation_def scale_of_def
      copy_abs_def Let_def split: option.split dec_exponent.split)

lemma check_numbers_find:
  "check_numbers c p s vs =
     (case find (\<lambda>v. number_verdict p s v \<noteq> Pass) vs of
        None \<Rightarrow> Inr []
      | Some v \<Rightarrow>
          (if number_verdict p s v = Raises then Inl TypeError
           else Inr [violation c p s v (number_verdict p s v)]))"
proof (induction vs)
  case Nil
  then show ?case by simp
next
  case (Cons v vs)
  then show ?case
    by (cases "number_verdict p s v") (simp_all add: check_number_outcome outcome_def)
qed

lemma number_kind_not_char:
  assumes "d \<in> set [''NUMBER'', ''DECIMAL'', ''NUMERIC'', ''FIXED'']"
  shows "\<not> (contains ''CHAR'' d \<or> contains ''TEXT'' d \<or> contains ''STRING'' d)"
  using assms by auto

text \<open>
  With a scale between 0 and the precision, the overflow check on a value that passed
  the scale check comes down to its integer digits against \<open>p - s\<close>.
\<close>

lemma overflow_iff_int_digits:
  assumes "0 \<le> s" and "s \<le> p" and "decimal_of_str v = Some d" and "exponent d = Fin e"
    and "frac_digits e \<le> s"
  shows "number_verdict p s v = Precision_Overflow \<longleftrightarrow> int_digits (length (digits d)) e > p - s"
  using assms by (auto simp: number_verdict_def)

text \<open>
  On a NUMBER column none of whose values spells an infinity or a NaN, the loop goes
  through the non-null values in row order and stops at the first one that does not pass:
  one message for it, nothing when every value passes.
\<close>

lemma validate_number_column:
  assumes row: "find (\<lambda>r. column_name r = db_col_name (label col)) metadata = Some row"
    and kind: "upper (data_type row) \<in> set [''NUMBER'', ''DECIMAL'', ''NUMERIC'', ''FIXED'']"
    and prec: "numeric_precision row = Some p"
    and scale: "s = (case numeric_scale row of None \<Rightarrow> 0 | Some sc \<Rightarrow> sc)"
    and finite: "\<forall>v \<in> set (map py_str (dropna (cells col))). number_verdict p s v \<noteq> Raises"
  shows "validate_column metadata col =
           Inr (case find (\<lambda>v. number_verdict p s v \<noteq> Pass) (map py_str (dropna (cells col))) of
                  None \<Rightarrow> []
                | Some v \<Rightarrow> [violation (label col) p s v (number_verdict p s v)])"
proof -
  let ?vs = "map py_str (dropna (cells col))"
  have nochar: "\<not> (contains ''CHAR'' (upper (data_type row)) \<or> contains ''TEXT'' (upper (data_type row))
               \<or> contains ''STRING'' (upper (data_type row)))"
    using kind by (rule number_kind_not_char)
  have "validate_column metadata col = check_numbers (label col) p s ?vs"
    using row kind nochar prec scale by (simp add: validate_column_def Let_def)
  moreover have "check_numbers (label col) p s ?vs =
           Inr (case find (\<lambda>v. number_verdict p s v \<noteq> Pass) ?vs of
                  None \<Rightarrow> []
                | Some v \<Rightarrow> [violation (label col) p s v (number_verdict p s v)])"
  proof (cases "find (\<lambda>v. number_verdict p s v \<noteq> Pass) ?vs")
    case None
    then show ?thesis by (simp add: check_numbers_find)
  next
    case (Some v)
    then have "v \<in> set ?vs" by (auto simp: find_Some_iff)
    with finite have "number_verdict p s v \<noteq> Raises" by blast
    with Some show ?thesis by (simp add: check_numbers_find)
  qed
  ultimately show ?thesis by simp
qed

lemma validate_number_column_examples:
  "validate_column [MetaRow ''AMOUNT'' ''NUMBER'' None (Some 10) (Some 2)]
     (Column ''Amount'' Object [CStr ''12.34'', CNull, CStr ''1.234'', CStr ''abc''])
   = Inr [''Amount: value '' @ quoted ''1.234'' @ '' has scale 3 but max is 2''] \<and>
   validate_column [MetaRow ''AMOUNT'' ''NUMBER'' None (Some 10) (Some 2)]
     (Column ''Amount'' Object [CStr ''12.34'']) = Inr []"
proof -
  let ?row = "MetaRow ''AMOUNT'' ''NUMBER'' None (Some 10) (Some 2)"
  let ?c1 = "Column ''Amount'' Object [CStr ''12.34'', CNull, CStr ''1.234'', CStr ''abc'']"
  let ?c2 = "Column ''Amount'' Object [CStr ''12.34'']"
  have v1: "number_verdict 10 2 ''12.34'' = Pass" by code_simp
  have v2: "number_verdict 10 2 ''1.234'' = Scale_Violation" by code_simp
  have v3: "number_verdict 10 2 ''abc'' = Not_Valid" by code_simp
  have sc: "scale_of ''1.234'' = 3" by code_simp
  have r1: "find (\<lambda>r. column_name r = db_col_name (label ?c1)) [?row] = Some ?row"
    by (simp add: db_col_name_def upper_def upper_char_def replace_char_def)
  have r2: "find (\<lambda>r. column_name r = db_col_name (label ?c2)) [?row] = Some ?row"
    by (simp add: db_col_name_def upper_def upper_char_def replace_char_def)
  have k: "upper (data_type ?row) \<in> set [''NUMBER'', ''DECIMAL'', ''NUMERIC'', ''FIXED'']"
    by (simp add: upper_def upper_char_def)
  have p: "numeric_precision ?row = Some 10" by simp
  have s: "(2::int) = (case numeric_scale ?row of None \<Rightarrow> 0 | Some sc \<Rightarrow> sc)" by simp
  have f1: "\<forall>v \<in> set (map py_str (dropna (cells ?c1))). number_verdict 10 2 v \<noteq> Raises"
    by (simp add: dropna_def v1 v2 v3)
  have f2: "\<forall>v \<in> set (map py_str (dropna (cells ?c2))). number_verdict 10 2 v \<noteq> Raises"
    by (simp add: dropna_def v1)
  have a: "validate_column [?row] ?c1 =
             Inr [''Amount: value '' @ quoted ''1.234'' @ '' has scale 3 but max is 2'']"
    using validate_number_column [OF r1 k p s f1]
    by (simp add: dropna_def v1 v2 violation_def msg_scale_def sc str_int_def str_nat.simps
        digit_char_def)
  have b: "validate_column [?row] ?c2 = Inr []"
    using validate_number_column [OF r2 k p s f2]
    by (simp add: dropna_def v1)
  from a b show ?thesis by simp
qed





text \<open>
  C9. The check of a NUMBER value does not depend on its sign: two texts that parse to
  decimals with the same digits and the same exponent (a value and its negation) get
  the same verdict, and the loop's turn on each of them is that verdict's result: both
  pass, both raise, or both append the same kind of message.
\<close>

theorem number_check_sign_insensitive:
  assumes v: "decimal_of_str v = Some d"
    and v': "decimal_of_str v' = Some d'"
    and same: "copy_abs d' = copy_abs d"
  shows "number_verdict p s v' = number_verdict p s v \<and>
         check_number c p s v = outcome c p s v (number_verdict p s v) \<and>
         check_number c p s v' = outcome c p s v' (number_verdict p s v)"
proof -
  from same have "digits d' = digits d" "exponent d' = exponent d"
    by (simp_all add: copy_abs_def)
  with v v' have "number_verdict p s v' = number_verdict p s v"
    by (simp add: number_verdict_def split: dec_exponent.split)
  then show ?thesis by (simp add: check_number_outcome)
qed

theorem number_check_sign_insensitive_witness:
  "number_verdict 10 2 ''-1.234'' = number_verdict 10 2 ''1.234'' \<and>
   check_number ''Amount'' 10 2 ''1.234'' =
     Inr (Some (''Amount: value '' @ quoted ''1.234'' @ '' has scale 3 but max is 2'')) \<and>
   check_number ''Amount'' 10 2 ''-1.234'' =
     Inr (Some (''Amount: value '' @ quoted ''-1.234'' @ '' has scale 3 but max is 2''))"
proof -
  have a: "decimal_of_str ''1.234'' = Some (Decimal 0 [1, 2, 3, 4] (Fin (- 3)))" by code_simp
  have b: "decimal_of_str ''-1.234'' = Some (Decimal 1 [1, 2, 3, 4] (Fin (- 3)))" by code_simp
  have c: "copy_abs (Decimal 1 [1, 2, 3, 4] (Fin (- 3))) = copy_abs (Decimal 0 [1, 2, 3, 4] (Fin (- 3)))"
    by (simp add: copy_abs_def)
  have v: "number_verdict 10 2 ''1.234'' = Scale_Violation" by code_simp
  have s1: "scale_of ''1.234'' = 3" by code_simp
  have s2: "scale_of ''-1.234'' = 3" by code_simp
  show ?thesis
    using number_check_sign_insensitive [OF a b c, of 10 2 "''Amount''"]
    by (simp add: v outcome_def violation_def msg_scale_def s1 s2 str_int_def str_nat.simps
        digit_char_def)
qed

subsection \<open>Validation in the session and the Save Changes handler\<close>

lemma validate_unfold:
  "validate_changes_against_schema cfg st changes_df w =
     (if df_empty changes_df then (Inr [], w)
      else
        (case st (calls w) (Sql_to_pandas (schema_sql cfg)) of
           Some (Catalogue metadata) \<Rightarrow> validate_with metadata changes_df
         | _ \<Rightarrow> Inl StoreError,
         w\<lparr>calls := calls w @ [Sql_to_pandas (schema_sql cfg)]\<rparr>))"
  by (simp add: validate_changes_against_schema_def get_table_schema_metadata_def ask_def
      split: option.split reply.split)

lemma validate_call:
  "validate_changes_against_schema cfg st changes_df (call n w) =
     (case validate_changes_against_schema cfg st changes_df w of
        (r, w') \<Rightarrow> (r, call n w'))"
  by (simp add: validate_unfold call_def)



text \<open>
  C1. A value of a NUMBER column that spells an infinity or a NaN parses as a
  \<^verbatim>\<open>Decimal\<close> whose exponent is a letter; its comparison with 0 raises
  \<^verbatim>\<open>TypeError\<close> outside the \<^verbatim>\<open>try\<close> block, and the validator returns no list of
  messages, where the value should be reported as not a valid NUMBER.
\<close>

theorem validate_raises_on_special_value:
  "decimal_of_str ''Infinity'' = Some (Decimal 0 [0] Exp_F) \<and>
   fst (validate_changes_against_schema config0 store0
          [Column ''Amount'' Object [CStr ''12.34'', CStr ''Infinity'']] world0) = Inl TypeError \<and>
   decimal_of_str ''NaN'' = Some (Decimal 0 [] Exp_n) \<and>
   fst (validate_changes_against_schema config0 store0
          [Column ''Amount'' Object [CStr ''NaN'']] world0) = Inl TypeError"
proof -
  have a: "decimal_of_str ''Infinity'' = Some (Decimal 0 [0] Exp_F)" by code_simp
  have b: "decimal_of_str ''NaN'' = Some (Decimal 0 [] Exp_n)" by code_simp
  have f: "store0 (calls world0) (Sql_to_pandas (schema_sql config0)) = Some (Catalogue catalogue0)"
    by (simp add: store0_def)
  have c: "validate_with catalogue0 [Column ''Amount'' Object [CStr ''12.34'', CStr ''Infinity'']] =
             Inl TypeError"
    by code_simp
  have d: "validate_with catalogue0 [Column ''Amount'' Object [CStr ''NaN'']] = Inl TypeError"
    by code_simp
  from a b c d f show ?thesis
    by (simp add: validate_unfold df_empty_def)
qed

text \<open>
  C2. When the validator returns a non-empty list during a save, the handler shows the
  messages and stops: of the functions of the save it has called \<^verbatim>\<open>get_changed_rows\<close>
  and the validator only (not \<^verbatim>\<open>build_change_log\<close>, \<^verbatim>\<open>merge_changes\<close> or
  \<^verbatim>\<open>log_pending_changes\<close>), the only call made to the store is the read of the
  catalogue, and \<^verbatim>\<open>original_df\<close> and every other entry of the session state are as
  before.
\<close>

theorem save_aborts_on_violations:
  assumes changed: "get_changed_rows edited_df (original_df w) = Inr changes_df"
    and failed: "fst (validate_changes_against_schema cfg st changes_df w) = Inr errs"
    and nonempty: "errs \<noteq> []"
  shows "save_changes cfg st fmt_ts fmt_d get_changed_rows build_change_log edited_df w =
           (Stops,
            w\<lparr>calls := calls w @ [Sql_to_pandas (schema_sql cfg)],
              shown := shown w @
                Error ''Validation failed. Please fix the following values:'' #
                map (\<lambda>msg. Caption (''- '' @ msg)) errs,
              invoked := invoked w @ [''get_changed_rows'', ''validate_changes_against_schema'']\<rparr>)"
proof -
  have ne: "\<not> df_empty changes_df"
    using failed nonempty by (auto simp: validate_unfold)
  then have v: "validate_changes_against_schema cfg st changes_df w =
      (Inr errs, w\<lparr>calls := calls w @ [Sql_to_pandas (schema_sql cfg)]\<rparr>)"
    using failed by (simp add: validate_unfold)
  have v2: "validate_changes_against_schema cfg st changes_df
              (call ''validate_changes_against_schema'' (call ''get_changed_rows'' w)) =
            (Inr errs,
             call ''validate_changes_against_schema''
               (call ''get_changed_rows'' (w\<lparr>calls := calls w @ [Sql_to_pandas (schema_sql cfg)]\<rparr>)))"
    by (simp add: validate_call v)
  have "save_changes cfg st fmt_ts fmt_d get_changed_rows build_change_log edited_df w =
          (Stops,
           display (Error ''Validation failed. Please fix the following values:'' #
                    map (\<lambda>msg. Caption (''- '' @ msg)) errs)
             (call ''validate_changes_against_schema''
               (call ''get_changed_rows'' (w\<lparr>calls := calls w @ [Sql_to_pandas (schema_sql cfg)]\<rparr>))))"
    unfolding save_changes_def using changed ne nonempty by (simp add: v2)
  then show ?thesis
    by (simp add: call_def display_def)
qed

theorem save_aborts_on_violations_witness:
  "save_changes config0 store0 (\<lambda>c. None) (\<lambda>c. None) (\<lambda>edited original. Inr edited)
     (\<lambda>changes original. Inr changes) [Column ''Order Status'' String [CStr ''AB'']] world0 =
   (Stops,
    world0\<lparr>calls := calls world0 @ [Sql_to_pandas (schema_sql config0)],
      shown := shown world0 @
        Error ''Validation failed. Please fix the following values:'' #
        map (\<lambda>msg. Caption (''- '' @ msg)) [''Order Status: max length is 1, received '' @ quoted ''AB''],
      invoked := invoked world0 @ [''get_changed_rows'', ''validate_changes_against_schema'']\<rparr>)"
proof -
  let ?df = "[Column ''Order Status'' String [CStr ''AB'']]"
  have a: "(\<lambda>edited original. Inr edited) ?df (original_df world0) = (Inr ?df :: py_error + frame)"
    by simp
  have s: "store0 (calls world0) (Sql_to_pandas (schema_sql config0)) = Some (Catalogue catalogue0)"
    by (simp add: store0_def)
  have v: "validate_with catalogue0 ?df = Inr [''Order Status: max length is 1, received '' @ quoted ''AB'']"
    by code_simp
  have b: "fst (validate_changes_against_schema config0 store0 ?df world0) =
             Inr [''Order Status: max length is 1, received '' @ quoted ''AB'']"
    by (simp add: validate_unfold s v df_empty_def)
  have c: "[''Order Status: max length is 1, received '' @ quoted ''AB''] \<noteq> []" by simp
  show ?thesis
    using save_aborts_on_violations [where get_changed_rows = "\<lambda>edited original. Inr edited"
        and edited_df = ?df and w = world0 and changes_df = ?df and cfg = config0 and st = store0
        and errs = "[''Order Status: max length is 1, received '' @ quoted ''AB'']"
        and fmt_ts = "\<lambda>c. None" and fmt_d = "\<lambda>c. None"
        and build_change_log = "\<lambda>changes original. Inr changes"] b
    by simp
qed

subsection \<open>The upsert engine\<close>

lemma df_empty_store_names: "df_empty (store_names df) = df_empty df"
  by (cases df) (simp_all add: df_empty_def store_names_def)

lemma df_len_store_names: "df_len (store_names df) = df_len df"
  by (cases df) (simp_all add: df_len_def store_names_def)


lemma merge_changes_unfold:
  "merge_changes cfg st changes_df w =
     (let staged = store_names changes_df;
          c1 = Write_pandas staged BASE_MERGE_STAGE_TABLE;
          c2 = Sql_collect (merge_sql cfg staged)
      in if df_empty changes_df then (Inr 0, w)
         else if st (calls w) c1 = None then (Inl StoreError, w\<lparr>calls := calls w @ [c1]\<rparr>)
         else if st (calls w @ [c1]) c2 = None
           then (Inl StoreError, w\<lparr>calls := calls w @ [c1, c2]\<rparr>)
         else (Inr (df_len changes_df), w\<lparr>calls := calls w @ [c1, c2]\<rparr>))"
  by (auto simp: merge_changes_def Let_def ask_def df_empty_store_names df_len_store_names
      split: option.split)


text \<open>
  C4, as amended. \<^verbatim>\<open>merge_changes\<close> returns the number of rows of the change set it
  staged, whatever the store reports for the update; given an empty change set it
  returns 0 and makes no call to the store.
\<close>

theorem merge_returns_staged_rows:
  "(df_empty changes_df \<longrightarrow> merge_changes cfg st changes_df w = (Inr 0, w)) \<and>
   (\<not> df_empty changes_df \<longrightarrow>
    st (calls w) (Write_pandas (store_names changes_df) BASE_MERGE_STAGE_TABLE) \<noteq> None \<longrightarrow>
    st (calls w @ [Write_pandas (store_names changes_df) BASE_MERGE_STAGE_TABLE])
       (Sql_collect (merge_sql cfg (store_names changes_df))) \<noteq> None \<longrightarrow>
    merge_changes cfg st changes_df w =
      (Inr (df_len changes_df),
       w\<lparr>calls := calls w @
          [Write_pandas (store_names changes_df) BASE_MERGE_STAGE_TABLE,
           Sql_collect (merge_sql cfg (store_names changes_df))]\<rparr>))"
  by (simp add: merge_changes_unfold Let_def)


theorem merge_returns_staged_rows_witness:
  "merge_changes config0 store0 [] world0 = (Inr 0, world0) \<and>
   merge_changes config0 store0
     [Column ''Order ID'' Int64 [CInt 7, CInt 8], Column ''Order Status'' String [CStr ''B'', CNull]]
     world0 =
   (Inr 2,
    world0\<lparr>calls := calls world0 @
       [Write_pandas
          (store_names [Column ''Order ID'' Int64 [CInt 7, CInt 8],
                        Column ''Order Status'' String [CStr ''B'', CNull]])
          BASE_MERGE_STAGE_TABLE,
        Sql_collect
          (merge_sql config0
             (store_names [Column ''Order ID'' Int64 [CInt 7, CInt 8],
                           Column ''Order Status'' String [CStr ''B'', CNull]]))]\<rparr>)"
proof -
  let ?df = "[Column ''Order ID'' Int64 [CInt 7, CInt 8], Column ''Order Status'' String [CStr ''B'', CNull]]"
  have e: "df_empty []" by (simp add: df_empty_def)
  have n: "\<not> df_empty ?df" by (simp add: df_empty_def)
  have l: "df_len ?df = 2" by (simp add: df_len_def)
  have s1: "store0 (calls world0) (Write_pandas (store_names ?df) BASE_MERGE_STAGE_TABLE) \<noteq> None"
    by (simp add: store0_def)
  have s2: "store0 (calls world0 @ [Write_pandas (store_names ?df) BASE_MERGE_STAGE_TABLE])
       (Sql_collect (merge_sql config0 (store_names ?df))) \<noteq> None"
    by (simp add: store0_def)
  show ?thesis
    using merge_returns_staged_rows [of "[]" config0 store0 world0]
      merge_returns_staged_rows [of ?df config0 store0 world0] e n l s1 s2
    by simp
qed

text \<open>
  C4 as stated fails: the store reports no row affected by the update (no staged key
  matches), and \<^verbatim>\<open>merge_changes\<close> returns 1, the number of staged rows.
\<close>

theorem merge_count_counterexample:
  "fst (merge_changes config0 store0 [Column ''Order ID'' Int64 [CInt 7], Column ''Order Status'' String [CStr ''B'']] world0) = Inr 1 \<and>
   store0 (calls world0 @ [Write_pandas (store_names [Column ''Order ID'' Int64 [CInt 7], Column ''Order Status'' String [CStr ''B'']]) BASE_MERGE_STAGE_TABLE])
     (Sql_collect (merge_sql config0 (store_names [Column ''Order ID'' Int64 [CInt 7], Column ''Order Status'' String [CStr ''B'']]))) = Some (Affected 0)"
  by (simp add: merge_changes_unfold Let_def store0_def df_empty_def df_len_def)

subsection \<open>The column tagger\<close>

lemma filter_label_unique:
  assumes "label c \<notin> set (map label P)" and "label c \<notin> set (map label R)"
  shows "filter (\<lambda>x. label x = label c) (P @ c # R) = [c]"
proof -
  from assms(1) have "filter (\<lambda>x. label x = label c) P = []"
    by (auto simp: filter_empty_conv image_iff)
  moreover from assms(2) have "filter (\<lambda>x. label x = label c) R = []"
    by (auto simp: filter_empty_conv image_iff)
  ultimately show ?thesis by simp
qed

lemma filter_singleton_labels:
  assumes "filter (\<lambda>x. label x = label c) (P @ c # R) = [s]"
  shows "label c \<notin> set (map label P) \<and> label c \<notin> set (map label R)"
proof -
  from arg_cong [OF assms, of length]
  have "length (filter (\<lambda>x. label x = label c) P) +
        Suc (length (filter (\<lambda>x. label x = label c) R)) = 1"
    by simp
  then have "filter (\<lambda>x. label x = label c) P = [] \<and> filter (\<lambda>x. label x = label c) R = []"
    by simp
  then show ?thesis by (auto simp: filter_empty_conv)
qed

lemma set_series_append:
  "label c \<notin> set (map label P) \<Longrightarrow>
   set_series (P @ c # R) (label c) dt vs = P @ Column (label c) dt vs # R"
  by (induction P) auto

lemma label_converted_column [simp]: "label (converted_column f g c) = label c"
  by (simp add: converted_column_def)

text \<open>
  The turn of a column whose label is unique in the frame: it raises when the column is
  accepted with parsed values of different offsets, and puts the converted column in the
  place of the column otherwise.
\<close>

lemma convert_column_step:
  assumes "label c \<notin> set (map label P)" and "label c \<notin> set (map label R)"
  shows "convert_column f g (P @ c # R, tags) (label c) =
           (if accepted f g c \<and> \<not> same_offset (parsed_values f g c)
            then (Inl AttributeError,
                  tags(label c \<mapsto> Tag ''timestamp''
                                   (map_option date_of (ts_min (parsed_values f g c)))
                                   (map_option date_of (ts_max (parsed_values f g c)))))
            else (Inr (P @ converted_column f g c # R),
                  if accepted f g c then tags(label c \<mapsto> tag_of (parsed_values f g c)) else tags))"
proof -
  have only: "filter (\<lambda>x. label x = label c) (P @ c # R) = [c]"
    using assms by (rule filter_label_unique)
  show ?thesis
    unfolding convert_column_def prod.case only list.case
    using assms(1)
    by (simp add: set_series_append converted_column_def accepted_def parsed_values_def Let_def)
qed

lemma convert_column_Inr_unique:
  "fst (convert_column f g (S, tags) col) = Inr df' \<Longrightarrow>
   \<exists>s. filter (\<lambda>c. label c = col) S = [s]"
  by (auto simp: convert_column_def split: list.splits)

text \<open>
  The loop over a frame with unique labels, when no accepted column has parsed values
  of different offsets: every column is replaced by its converted column and the tags of
  the accepted ones are written.
\<close>

lemma convert_columns_distinct:
  "distinct (map label P @ map label R) \<Longrightarrow>
   \<forall>c \<in> set R. accepted f g c \<longrightarrow> same_offset (parsed_values f g c) \<Longrightarrow>
   convert_columns f g (P @ R, tags) (map label R) =
     (Inr (P @ map (converted_column f g) R), tags ++ new_tags f g R)"
proof (induction R arbitrary: P tags)
  case Nil
  then show ?case by simp
next
  case (Cons c R)
  from Cons.prems have n1: "label c \<notin> set (map label P)" and n2: "label c \<notin> set (map label R)"
    by auto
  from Cons.prems have d: "distinct (map label (P @ [converted_column f g c]) @ map label R)"
    by auto
  from Cons.prems have ok: "\<not> (accepted f g c \<and> \<not> same_offset (parsed_values f g c))"
    and oks: "\<forall>c \<in> set R. accepted f g c \<longrightarrow> same_offset (parsed_values f g c)"
    by simp_all
  let ?tags = "if accepted f g c then tags(label c \<mapsto> tag_of (parsed_values f g c)) else tags"
  have s: "convert_column f g (P @ c # R, tags) (label c) =
             (Inr ((P @ [converted_column f g c]) @ R), ?tags)"
    using convert_column_step [OF n1 n2, of f g tags] ok by simp
  have "convert_columns f g (P @ c # R, tags) (map label (c # R)) =
        convert_columns f g ((P @ [converted_column f g c]) @ R, ?tags) (map label R)"
    by (simp only: list.map convert_columns.simps s prod.case sum.case)
  also have "\<dots> = (Inr ((P @ [converted_column f g c]) @ map (converted_column f g) R),
                    ?tags ++ new_tags f g R)"
    using d oks by (rule Cons.IH)
  also have "?tags ++ new_tags f g R = tags ++ new_tags f g (c # R)"
    by (rule ext) (simp add: map_add_def split: option.split)
  finally show ?case by simp
qed

text \<open>Whatever the frame, a loop that returns has returned the converted columns.\<close>

lemma convert_columns_Inr:
  "fst (convert_columns f g (P @ R, tags) (map label R)) = Inr D \<Longrightarrow>
   D = P @ map (converted_column f g) R"
proof (induction R arbitrary: P tags)
  case Nil
  then show ?case by simp
next
  case (Cons c R)
  obtain r tags' where s: "convert_column f g (P @ c # R, tags) (label c) = (r, tags')"
    by (cases "convert_column f g (P @ c # R, tags) (label c)")
  with Cons.prems obtain df' where r: "r = Inr df'"
    and rest: "fst (convert_columns f g (df', tags') (map label R)) = Inr D"
    by (cases r) auto
  from s r have "fst (convert_column f g (P @ c # R, tags) (label c)) = Inr df'" by simp
  from convert_column_Inr_unique [OF this]
  obtain x where "filter (\<lambda>x. label x = label c) (P @ c # R) = [x]" by blast
  from filter_singleton_labels [OF this]
  have n1: "label c \<notin> set (map label P)" and n2: "label c \<notin> set (map label R)" by simp_all
  from convert_column_step [OF n1 n2, of f g tags] s r
  have df': "df' = (P @ [converted_column f g c]) @ R" by (simp split: if_splits)
  from rest have "D = (P @ [converted_column f g c]) @ map (converted_column f g) R"
    unfolding df' by (rule Cons.IH)
  then show ?case by simp
qed

lemma columns_convert_dtypes: "map label (convert_dtypes df) = columns df"
  by (simp add: convert_dtypes_def columns_def comp_def)

lemma auto_convert_dtypes_eq:
  assumes "distinct (columns df)"
    and "\<forall>c \<in> set (convert_dtypes df). accepted f g c \<longrightarrow> same_offset (parsed_values f g c)"
  shows "auto_convert_dtypes f g tags df =
           (Inr (map (converted_column f g) (convert_dtypes df)),
            tags ++ new_tags f g (convert_dtypes df))"
proof -
  from assms(1) have "distinct (map label [] @ map label (convert_dtypes df))"
    by (simp add: columns_convert_dtypes)
  from convert_columns_distinct [OF this assms(2), of tags] show ?thesis
    by (simp add: auto_convert_dtypes_def Let_def columns_def)
qed

lemma auto_convert_dtypes_Inr:
  assumes "fst (auto_convert_dtypes f g tags df) = Inr df'"
  shows "df' = map (converted_column f g) (convert_dtypes df)"
proof -
  from assms
  have "fst (convert_columns f g ([] @ convert_dtypes df, tags) (map label (convert_dtypes df))) =
          Inr df'"
    by (simp add: auto_convert_dtypes_def Let_def columns_def)
  from convert_columns_Inr [OF this] show ?thesis by simp
qed

lemma convert_column_tags:
  "convert_column f g (df, tags1 ++ tags2) col =
     (fst (convert_column f g (df, tags2) col), tags1 ++ snd (convert_column f g (df, tags2) col))"
  by (simp add: convert_column_def Let_def split: list.split)

lemma convert_columns_tags:
  "convert_columns f g (df, tags1 ++ tags2) cols =
     (fst (convert_columns f g (df, tags2) cols),
      tags1 ++ snd (convert_columns f g (df, tags2) cols))"
proof (induction cols arbitrary: df tags2)
  case Nil
  then show ?case by simp
next
  case (Cons col cols)
  obtain r tags' where s: "convert_column f g (df, tags2) col = (r, tags')"
    by (cases "convert_column f g (df, tags2) col")
  then have t: "convert_column f g (df, tags1 ++ tags2) col = (r, tags1 ++ tags')"
    by (simp add: convert_column_tags)
  show ?case
  proof (cases r)
    case (Inl e)
    with s t show ?thesis by simp
  next
    case (Inr df')
    with s t show ?thesis by (simp add: Cons.IH)
  qed
qed

text \<open>
  C6, as amended. The tagger never clears \<^verbatim>\<open>column_tags\<close>: after a load the
  registry is the registry as it was before, overridden by the tags computed for the
  newly loaded snapshot. An entry of an earlier load for a column that is absent from the
  new snapshot, or no longer accepted as temporal in it, stays. The frame the tagger
  returns does not depend on the registry.
\<close>

theorem column_tags_accumulate:
  "snd (auto_convert_dtypes fmt_ts fmt_d tags df) =
     tags ++ snd (auto_convert_dtypes fmt_ts fmt_d Map.empty df) \<and>
   fst (auto_convert_dtypes fmt_ts fmt_d tags df) = fst (auto_convert_dtypes fmt_ts fmt_d Map.empty df)"
  using convert_columns_tags [of fmt_ts fmt_d "convert_dtypes df" tags Map.empty "columns (convert_dtypes df)"]
  by (simp add: auto_convert_dtypes_def Let_def)

text \<open>
  The same at the level of a load: \<^verbatim>\<open>load_data\<close> leaves in \<^verbatim>\<open>column_tags\<close> what
  was there, overridden by the tags of the snapshot it has just read, also when the
  tagger raises.
\<close>

lemma load_data_column_tags:
  assumes "st (calls w) (Sql_to_pandas (select_sql cfg)) = Some (Rows raw)"
  shows "column_tags (snd (load_data cfg st f g w)) =
           column_tags w ++ snd (auto_convert_dtypes f g Map.empty (clean_column_names raw))"
proof -
  let ?df = "convert_dtypes (clean_column_names raw)"
  have "snd (convert_columns f g (?df, column_tags w ++ Map.empty) (columns ?df)) =
          column_tags w ++ snd (convert_columns f g (?df, Map.empty) (columns ?df))"
    by (simp only: convert_columns_tags snd_conv)
  then have "snd (auto_convert_dtypes f g (column_tags w) (clean_column_names raw)) =
          column_tags w ++ snd (auto_convert_dtypes f g Map.empty (clean_column_names raw))"
    by (simp add: auto_convert_dtypes_def Let_def)
  then show ?thesis
    using assms by (auto simp: load_data_def ask_def split: prod.split sum.split)
qed



lemma notna_all_to_datetime:
  "notna_all (to_datetime fmt values) \<longleftrightarrow> (\<forall>c \<in> set values. c \<noteq> CNull \<and> fmt c \<noteq> None)"
  by (auto simp: notna_all_def to_datetime_def list_all_iff)



text \<open>
  Outside these hypotheses the tagger raises. With two offsets among the parsed values
  of a column, the tag of the column is in the registry when the exception leaves the
  loop; with a label that occurs twice, nothing is written.
\<close>

lemma tagger_raises_examples:
  "fst (auto_convert_dtypes iso_timestamp iso_date Map.empty
          [Column ''Created At'' Object
             [CStr ''2024-01-01 10:00:00+0100'', CStr ''2024-01-02 10:00:00+0200'']])
     = Inl AttributeError \<and>
   snd (auto_convert_dtypes iso_timestamp iso_date Map.empty
          [Column ''Created At'' Object
             [CStr ''2024-01-01 10:00:00+0100'', CStr ''2024-01-02 10:00:00+0200'']]) ''Created At''
     = Some (Tag ''timestamp'' (Some (Date 2024 1 1)) (Some (Date 2024 1 2))) \<and>
   fst (auto_convert_dtypes iso_timestamp iso_date Map.empty
          [Column ''Note'' Object [CStr ''a''], Column ''Note'' Object [CStr ''b'']])
     = Inl ValueError \<and>
   snd (auto_convert_dtypes iso_timestamp iso_date Map.empty
          [Column ''Note'' Object [CStr ''a''], Column ''Note'' Object [CStr ''b'']]) ''Note''
     = None"
  by code_simp

lemma parsed_cells_converted:
  assumes "accepted f g c"
  shows "list_all2 (cell_converted f g) (cells c) (map CTimestamp (parsed_values f g c)) \<and>
         list_all2 (cell_converted f g) (cells c) (map (\<lambda>t. CDate (date_of t)) (parsed_values f g c))"
proof (cases "notna_all (to_datetime f (cells c))")
  case True
  then have a: "\<forall>v \<in> set (cells c). v \<noteq> CNull \<and> f v \<noteq> None"
    by (simp add: notna_all_to_datetime)
  have p: "parsed_values f g c = map (\<lambda>v. the (f v)) (cells c)"
    using True a by (simp add: parsed_values_def parse_series_def to_datetime_def)
  show ?thesis
    unfolding p using a
    by (auto simp: list_all2_map2 cell_converted_def intro!: list_all2_same [THEN iffD2])
next
  case False
  with assms have "notna_all (to_datetime g (cells c))"
    by (simp add: accepted_def parse_series_def)
  then have a: "\<forall>v \<in> set (cells c). v \<noteq> CNull \<and> g v \<noteq> None"
    by (simp add: notna_all_to_datetime)
  have p: "parsed_values f g c = map (\<lambda>v. the (g v)) (cells c)"
    using False a by (simp add: parsed_values_def parse_series_def to_datetime_def)
  show ?thesis
    unfolding p using a
    by (auto simp: list_all2_map2 cell_converted_def intro!: list_all2_same [THEN iffD2]
        split: option.split)
qed

lemma converted_column_cells:
  "list_all2 (cell_converted f g) (cells c) (cells (converted_column f g c))"
proof (cases "accepted f g c")
  case True
  with parsed_cells_converted [OF True] show ?thesis
    by (simp add: converted_column_def)
next
  case False
  then show ?thesis
    by (simp add: converted_column_def cell_converted_def list_all2_same)
qed

text \<open>
  C10. Whenever \<^verbatim>\<open>auto_convert_dtypes\<close> returns a frame, that frame has the labels of
  the input in the same order and, column by column, as many cells as the input; each
  cell is the input's cell at that place, or the timestamp or date that cell parses to.
  It does return a frame when the labels are unique and the parsed values of every
  accepted column share one UTC offset.
\<close>

theorem auto_convert_preserves_shape:
  "(distinct (columns df) \<and>
    (\<forall>c \<in> set (convert_dtypes df).
       accepted fmt_ts fmt_d c \<longrightarrow> same_offset (parsed_values fmt_ts fmt_d c)) \<longrightarrow>
    (\<exists>df'. fst (auto_convert_dtypes fmt_ts fmt_d tags df) = Inr df')) \<and>
   (\<forall>df'. fst (auto_convert_dtypes fmt_ts fmt_d tags df) = Inr df' \<longrightarrow>
      columns df' = columns df \<and>
      map (\<lambda>c. length (cells c)) df' = map (\<lambda>c. length (cells c)) df \<and>
      list_all2
        (\<lambda>c c'. label c' = label c \<and> list_all2 (cell_converted fmt_ts fmt_d) (cells c) (cells c'))
        df df')"
proof (intro conjI impI allI)
  assume "distinct (columns df) \<and>
    (\<forall>c \<in> set (convert_dtypes df).
       accepted fmt_ts fmt_d c \<longrightarrow> same_offset (parsed_values fmt_ts fmt_d c))"
  then have "auto_convert_dtypes fmt_ts fmt_d tags df =
           (Inr (map (converted_column fmt_ts fmt_d) (convert_dtypes df)),
            tags ++ new_tags fmt_ts fmt_d (convert_dtypes df))"
    using auto_convert_dtypes_eq [of df fmt_ts fmt_d tags] by blast
  then show "\<exists>df'. fst (auto_convert_dtypes fmt_ts fmt_d tags df) = Inr df'" by simp
next
  fix df'
  assume ret: "fst (auto_convert_dtypes fmt_ts fmt_d tags df) = Inr df'"
  let ?conv = "\<lambda>c. converted_column fmt_ts fmt_d (Column (label c) (nullable_dtype c) (cells c))"
  have r: "df' = map ?conv df"
    using auto_convert_dtypes_Inr [OF ret] by (simp add: convert_dtypes_def comp_def)
  have each: "\<And>c. label (?conv c) = label c \<and>
                   list_all2 (cell_converted fmt_ts fmt_d) (cells c) (cells (?conv c))"
    using converted_column_cells [of fmt_ts fmt_d "Column (label c) (nullable_dtype c) (cells c)" for c]
    by simp
  have len: "length (cells (?conv c)) = length (cells c)" for c
    using list_all2_lengthD
      [OF converted_column_cells [of fmt_ts fmt_d "Column (label c) (nullable_dtype c) (cells c)"]]
    by simp
  show "columns df' = columns df"
    unfolding r by (simp add: columns_def comp_def)
  show "map (\<lambda>c. length (cells c)) df' = map (\<lambda>c. length (cells c)) df"
    unfolding r by (simp add: comp_def len)
  show "list_all2
           (\<lambda>c c'. label c' = label c \<and> list_all2 (cell_converted fmt_ts fmt_d) (cells c) (cells c'))
           df df'"
    unfolding r using each by (simp add: list_all2_map2 list_all2_same)
qed

theorem auto_convert_preserves_shape_witness:
  "\<exists>df'. fst (auto_convert_dtypes iso_timestamp iso_date Map.empty
            [Column ''Order Date'' Object [CStr ''2024-01-02'', CStr ''2024-01-01''],
             Column ''Quantity'' Object [CInt 1, CNull],
             Column ''Shipped On'' Object [CStr ''2024-01-02'', CNull]]) = Inr df' \<and>
          columns df' = [''Order Date'', ''Quantity'', ''Shipped On''] \<and>
          map (\<lambda>c. length (cells c)) df' = [2, 2, 2]"
proof -
  let ?df = "[Column ''Order Date'' Object [CStr ''2024-01-02'', CStr ''2024-01-01''],
      Column ''Quantity'' Object [CInt 1, CNull],
      Column ''Shipped On'' Object [CStr ''2024-01-02'', CNull]]"
  let ?c1 = "Column ''Order Date'' String [CStr ''2024-01-02'', CStr ''2024-01-01'']"
  let ?c2 = "Column ''Quantity'' Int64 [CInt 1, CNull]"
  let ?c3 = "Column ''Shipped On'' String [CStr ''2024-01-02'', CNull]"
  have d: "distinct (columns ?df)" by (simp add: columns_def)
  have cd: "convert_dtypes ?df = [?c1, ?c2, ?c3]" by code_simp
  have o1: "same_offset (parsed_values iso_timestamp iso_date ?c1)" by code_simp
  have o2: "\<not> accepted iso_timestamp iso_date ?c2" by code_simp
  have o3: "\<not> accepted iso_timestamp iso_date ?c3" by code_simp
  have off: "\<forall>c \<in> set (convert_dtypes ?df).
               accepted iso_timestamp iso_date c \<longrightarrow> same_offset (parsed_values iso_timestamp iso_date c)"
    unfolding cd using o1 o2 o3 by simp
  note t = auto_convert_preserves_shape [of ?df iso_timestamp iso_date Map.empty]
  from t [THEN conjunct1] d off
  obtain df' where ret: "fst (auto_convert_dtypes iso_timestamp iso_date Map.empty ?df) = Inr df'"
    by blast
  from t [THEN conjunct2] ret
  have a: "columns df' = columns ?df"
    and b: "map (\<lambda>c. length (cells c)) df' = map (\<lambda>c. length (cells c)) ?df"
    by blast+
  have c: "columns ?df = [''Order Date'', ''Quantity'', ''Shipped On'']" by (simp add: columns_def)
  have e: "map (\<lambda>c. length (cells c)) ?df = [2, 2, 2]" by simp
  from ret a b c e show ?thesis by (intro exI [of _ df']) (simp only:)
qed



text \<open>
  C6 as stated fails: after a first load has tagged Order Date, a second load in which
  the column is no longer temporal leaves the entry of the first load in the registry,
  while the tags computed for the second snapshot alone have no such entry.
\<close>

theorem column_tags_stale_counterexample:
  "snd (auto_convert_dtypes iso_timestamp iso_date
          (snd (auto_convert_dtypes iso_timestamp iso_date Map.empty
                  [Column ''Order Date'' Object [CStr ''2024-01-01'', CStr ''2024-01-02'']]))
          [Column ''Order Date'' Object [CStr ''n/a'', CStr ''2024-01-02'']]) ''Order Date''
     = Some (Tag ''date'' (Some (Date 2024 1 1)) (Some (Date 2024 1 2))) \<and>
   snd (auto_convert_dtypes iso_timestamp iso_date Map.empty
          [Column ''Order Date'' Object [CStr ''n/a'', CStr ''2024-01-02'']]) ''Order Date'' = None"
  by code_simp

end
